theory Spec2Isabelle
  imports
    Main
    "HOL-Library.Char_ord"
    "HOL-Library.List_Lexorder"
    "HOL-Library.Multiset"
begin

section \<open>JavaScript values\<close>

text \<open>
  The helper module works on JSON-like values: request bodies, parsed responses and the
  arguments of the exported functions. A value is one of the JavaScript primitives, an
  array or a plain object. An object is the list of its own enumerable properties in the
  order \<^verbatim>\<open>Object.keys\<close> enumerates them; the keys of an object are pairwise distinct.

  Numbers are IEEE doubles in JavaScript. Their type is left open (\<open>'n\<close>); what the
  program needs of them (conversion to a string, truthiness) is supplied by the platform
  record below. Strings are character lists.
\<close>

datatype 'n jsval =
    JUndefined
  | JNull
  | JBool bool
  | JNum 'n
  | JStr string
  | JArr "'n jsval list"
  | JObj "(string \<times> 'n jsval) list"

text \<open>Thrown values. \<open>message\<close> is the \<^verbatim>\<open>.message\<close> property.\<close>

datatype js_error =
    Error (message: string)
  | TypeError (message: string)
  | OtherError string (message: string)

section \<open>What the runtime and the libraries provide\<close>

text \<open>
  The program calls into Node's \<^verbatim>\<open>crypto\<close> module, the \<^verbatim>\<open>elliptic\<close> package and a few
  built-ins whose code is not part of the repository. They are parameters of the model:
  \<^item> \<open>sha256 m\<close>: \<^verbatim>\<open>crypto.createHash('sha256').update(m).digest()\<close>, the digest as a
    sequence of bytes;
  \<^item> \<open>ec_sign secret h\<close>: \<^verbatim>\<open>ec.keyFromPrivate(secret).sign(h)\<close> on the curve secp256k1, a
    signature object (its type \<open>'s\<close> is left open); elliptic derives the per-signature
    secret from the key and the hash, so the signature is a function of both;
  \<^item> \<open>toDER_hex sg\<close>: \<^verbatim>\<open>sg.toDER('hex')\<close>;
  \<^item> \<open>JSON_stringify v\<close>: \<^verbatim>\<open>JSON.stringify(v)\<close>, used on values for which it returns a string;
  \<^item> \<open>Number_toString n\<close>: the string a number converts to;
  \<^item> \<open>Number_truthy n\<close>: false for \<^verbatim>\<open>0\<close>, \<^verbatim>\<open>-0\<close> and \<^verbatim>\<open>NaN\<close>;
  \<^item> \<open>toISOString t\<close>: \<^verbatim>\<open>new Date(t).toISOString()\<close>;
  \<^item> \<open>toUpperCase s\<close>: \<^verbatim>\<open>s.toUpperCase()\<close>, the upper-case mapping of the Unicode standard.
\<close>

record ('n, 's) platform =
  sha256 :: "string \<Rightarrow> string"
  ec_sign :: "string \<Rightarrow> string \<Rightarrow> 's"
  toDER_hex :: "'s \<Rightarrow> string"
  JSON_stringify :: "'n jsval \<Rightarrow> string"
  Number_toString :: "'n \<Rightarrow> string"
  Number_truthy :: "'n \<Rightarrow> bool"
  toISOString :: "nat \<Rightarrow> string"
  toUpperCase :: "string \<Rightarrow> string"

section \<open>Built-in operations used by the helper\<close>

text \<open>Decimal digits of a natural number: array indices, HTTP status codes, \<^verbatim>\<open>Date.now()\<close>.\<close>

definition digit_char :: "nat \<Rightarrow> char" where
  "digit_char d = char_of (48 + d)"

fun nat_to_dec :: "nat \<Rightarrow> string" where
  "nat_to_dec n = (if n < 10 then [digit_char n] else nat_to_dec (n div 10) @ [digit_char (n mod 10)])"

declare nat_to_dec.simps [simp del]

text \<open>\<^verbatim>\<open>Array.prototype.join\<close> on an array of strings.\<close>

fun array_join :: "string list \<Rightarrow> string \<Rightarrow> string" where
  "array_join [] sep = []"
| "array_join [x] sep = x"
| "array_join (x # y # ys) sep = x @ sep @ array_join (y # ys) sep"

text \<open>Truthiness (\<^verbatim>\<open>ToBoolean\<close>).\<close>

fun truthy :: "('n, 's) platform \<Rightarrow> 'n jsval \<Rightarrow> bool" where
  "truthy P JUndefined = False"
| "truthy P JNull = False"
| "truthy P (JBool b) = b"
| "truthy P (JNum n) = Number_truthy P n"
| "truthy P (JStr s) = (s \<noteq> [])"
| "truthy P (JArr xs) = True"
| "truthy P (JObj kvs) = True"

text \<open>\<^verbatim>\<open>typeof v === 'object'\<close>: objects, arrays and \<^verbatim>\<open>null\<close>.\<close>

fun typeof_object :: "'n jsval \<Rightarrow> bool" where
  "typeof_object JNull = True"
| "typeof_object (JArr xs) = True"
| "typeof_object (JObj kvs) = True"
| "typeof_object v = False"

text \<open>
  String conversion (\<^verbatim>\<open>ToString\<close>), as a template literal applies it. A primitive value
  always has one. An object is converted by calling its \<^verbatim>\<open>toString\<close> method and, when that
  is not callable, its \<^verbatim>\<open>valueOf\<close> method. The values here are data: an own property is
  never callable. So a plain object without an own property \<^verbatim>\<open>toString\<close> inherits the
  method of \<^verbatim>\<open>Object.prototype\<close> and converts to \<^verbatim>\<open>[object Object]\<close>; a plain object with an
  own property \<^verbatim>\<open>toString\<close> has no callable \<^verbatim>\<open>toString\<close>, its \<^verbatim>\<open>valueOf\<close> is either an own
  property (not callable) or the inherited one (which returns the object itself), and
  the conversion throws a \<^verbatim>\<open>TypeError\<close>. An array converts by \<^verbatim>\<open>join\<close>: its elements are
  converted from left to right, \<^verbatim>\<open>null\<close> and \<^verbatim>\<open>undefined\<close> to the empty string, and joined by
  commas; the conversion of an element may throw.
\<close>

fun to_string :: "('n, 's) platform \<Rightarrow> 'n jsval \<Rightarrow> js_error + string"
  and to_strings :: "('n, 's) platform \<Rightarrow> 'n jsval list \<Rightarrow> js_error + string list" where
  "to_string P JUndefined = Inr ''undefined''"
| "to_string P JNull = Inr ''null''"
| "to_string P (JBool b) = Inr (if b then ''true'' else ''false'')"
| "to_string P (JNum n) = Inr (Number_toString P n)"
| "to_string P (JStr s) = Inr s"
| "to_string P (JArr xs) =
     (case to_strings P xs of Inl e \<Rightarrow> Inl e | Inr parts \<Rightarrow> Inr (array_join parts '',''))"
| "to_string P (JObj kvs) =
     (if ''toString'' \<in> set (map fst kvs)
      then Inl (TypeError ''Cannot convert object to primitive value'')
      else Inr ''[object Object]'')"
| "to_strings P [] = Inr []"
| "to_strings P (x # xs) =
     (case (if x = JUndefined \<or> x = JNull then Inr [] else to_string P x) of
        Inl e \<Rightarrow> Inl e
      | Inr part \<Rightarrow>
          (case to_strings P xs of Inl e \<Rightarrow> Inl e | Inr parts \<Rightarrow> Inr (part # parts)))"

text \<open>
  \<^verbatim>\<open>Object.keys\<close>: the own enumerable property names. For an array and for a string these
  are the indices in decimal; a boolean or a number has none. \<^verbatim>\<open>Object.keys\<close> throws on
  \<^verbatim>\<open>null\<close> and \<^verbatim>\<open>undefined\<close>; the program calls it only behind a truthiness guard, and
  the model gives them no keys.
\<close>

fun Object_keys :: "'n jsval \<Rightarrow> string list" where
  "Object_keys (JObj kvs) = map fst kvs"
| "Object_keys (JArr xs) = map nat_to_dec [0..<length xs]"
| "Object_keys (JStr s) = map nat_to_dec [0..<length s]"
| "Object_keys v = []"

text \<open>
  Property read \<^verbatim>\<open>v[key]\<close> and \<^verbatim>\<open>v.key\<close> on own data properties. Reading a property of
  \<^verbatim>\<open>null\<close> or \<^verbatim>\<open>undefined\<close> throws a \<^verbatim>\<open>TypeError\<close>; a property that is absent reads as
  \<^verbatim>\<open>undefined\<close>. The names the program reads are own keys, \<^verbatim>\<open>wallet_id\<close>, \<^verbatim>\<open>address\<close> and
  \<^verbatim>\<open>message\<close>, none of which is a property of a built-in prototype.
\<close>

definition index_of_key :: "nat \<Rightarrow> string \<Rightarrow> nat option" where
  "index_of_key n key = find (\<lambda>i. nat_to_dec i = key) [0..<n]"

fun get_prop :: "'n jsval \<Rightarrow> string \<Rightarrow> js_error + 'n jsval" where
  "get_prop JUndefined key =
     Inl (TypeError (''Cannot read properties of undefined (reading '' @ [CHR 0x27] @ key @ [CHR 0x27] @ '')''))"
| "get_prop JNull key =
     Inl (TypeError (''Cannot read properties of null (reading '' @ [CHR 0x27] @ key @ [CHR 0x27] @ '')''))"
| "get_prop (JObj kvs) key = Inr (case map_of kvs key of Some v \<Rightarrow> v | None \<Rightarrow> JUndefined)"
| "get_prop (JArr xs) key =
     Inr (case index_of_key (length xs) key of Some i \<Rightarrow> xs ! i | None \<Rightarrow> JUndefined)"
| "get_prop (JStr s) key =
     Inr (case index_of_key (length s) key of Some i \<Rightarrow> JStr [s ! i] | None \<Rightarrow> JUndefined)"
| "get_prop v key = Inr JUndefined"

text \<open>The same read where the receiver is known not to be \<^verbatim>\<open>null\<close> or \<^verbatim>\<open>undefined\<close>.\<close>

definition prop_of :: "'n jsval \<Rightarrow> string \<Rightarrow> 'n jsval" where
  "prop_of v key = (case get_prop v key of Inr x \<Rightarrow> x | Inl e \<Rightarrow> JUndefined)"

section \<open>Module initialisation\<close>

text \<open>
  The three module constants, read from \<^verbatim>\<open>process.env\<close> when the module is loaded.
\<close>

record config =
  API_KEY :: string
  API_SECRET :: string
  BASE_URL :: string

text \<open>
  \<open>env\<close> is \<^verbatim>\<open>process.env\<close> after \<^verbatim>\<open>dotenv\<close> has run: a variable that is not set reads as
  \<^verbatim>\<open>undefined\<close> (\<open>None\<close>). \<^verbatim>\<open>!x\<close> holds of \<^verbatim>\<open>undefined\<close> and of the empty string.
\<close>

definition env_falsy :: "string option \<Rightarrow> bool" where
  "env_falsy x = (case x of None \<Rightarrow> True | Some s \<Rightarrow> s = [])"

text \<open>\<^verbatim>\<open>x || d\<close> on such a variable.\<close>

definition env_or :: "string option \<Rightarrow> string \<Rightarrow> string" where
  "env_or x d = (case x of None \<Rightarrow> d | Some s \<Rightarrow> if s = [] then d else s)"

definition load_module :: "(string \<rightharpoonup> string) \<Rightarrow> js_error + config" where
  "load_module env =
     (let api_key = env ''COBO_API_KEY'';
          api_secret = env ''COBO_API_SECRET'';
          base_url = env_or (env ''COBO_BASE_URL'') ''https://api.cobo.com''
      in if env_falsy api_key \<or> env_falsy api_secret
         then Inl (Error ''Missing API key or secret. Please set COBO_API_KEY and COBO_API_SECRET in .env'')
         else Inr \<lparr>API_KEY = the api_key, API_SECRET = the api_secret, BASE_URL = base_url\<rparr>)"

section \<open>signRequest\<close>

text \<open>
  The value of the local variable \<^verbatim>\<open>paramsStr\<close> of \<^verbatim>\<open>signRequest\<close>: empty unless
  \<^verbatim>\<open>params\<close> is truthy and has a key; otherwise the pairs \<^verbatim>\<open>key=value\<close> of the sorted keys
  joined by \<^verbatim>\<open>&\<close>. The default comparison of \<^verbatim>\<open>Array.prototype.sort\<close> orders strings
  lexicographically by their code units.
\<close>

text \<open>
  The text of one value in a pair: \<^verbatim>\<open>JSON.stringify\<close> of a value whose \<^verbatim>\<open>typeof\<close> is
  \<^verbatim>\<open>'object'\<close>, and the string conversion of any other value, which is then a primitive
  and has one.
\<close>

definition param_value :: "('n, 's) platform \<Rightarrow> 'n jsval \<Rightarrow> string" where
  "param_value P v =
     (if typeof_object v then JSON_stringify P v
      else (case to_string P v of Inr s \<Rightarrow> s | Inl e \<Rightarrow> []))"

definition paramsStr :: "('n, 's) platform \<Rightarrow> 'n jsval \<Rightarrow> string" where
  "paramsStr P params =
     (if truthy P params \<and> length (Object_keys params) > 0 then
        (let sortedKeys = sort (Object_keys params);
             keyValuePairs = map (\<lambda>key. key @ ''='' @ param_value P (prop_of params key)) sortedKeys
         in array_join keyValuePairs ''&'')
      else [])"

text \<open>The default value \<^verbatim>\<open>{}\<close> replaces an argument that is \<^verbatim>\<open>undefined\<close>.\<close>

definition signRequest :: "('n, 's) platform \<Rightarrow> config \<Rightarrow> string \<Rightarrow> string \<Rightarrow> string \<Rightarrow> 'n jsval \<Rightarrow> string" where
  "signRequest P cfg method path nonce params_arg =
     (let params = (if params_arg = JUndefined then JObj [] else params_arg);
          message = toUpperCase P method @ ''|'' @ path @ ''|'' @ nonce @ ''|'' @ paramsStr P params;
          msgHash = sha256 P message;
          signature = ec_sign P (API_SECRET cfg) msgHash
      in toDER_hex P signature)"

section \<open>The world outside the module\<close>

text \<open>
  What \<^verbatim>\<open>fetch\<close> is called with: the URL and the fields of the options object. A body of
  \<open>None\<close> is \<^verbatim>\<open>body: undefined\<close>, a request without a body.
\<close>

record request =
  url :: string
  http_method :: string
  headers :: "(string \<times> string) list"
  body :: "string option"

text \<open>
  What \<^verbatim>\<open>fetch\<close> resolves to. \<open>json_result\<close> is the outcome of \<^verbatim>\<open>response.json()\<close>: the
  parsed body, or the error it rejects with when the body is not valid JSON.
  \<open>text_result\<close> is the outcome of the call \<^verbatim>\<open>response.text()\<close> that the program makes
  after \<^verbatim>\<open>response.json()\<close> has failed.
\<close>

record 'n response =
  status :: nat
  statusText :: string
  json_result :: "js_error + 'n jsval"
  text_result :: "js_error + string"

text \<open>\<^verbatim>\<open>response.ok\<close>: the status is in the range 200 to 299.\<close>

definition ok :: "'n response \<Rightarrow> bool" where
  "ok r = (200 \<le> status r \<and> status r \<le> 299)"

datatype 'n fetch_outcome =
    Rejects js_error
  | Resolves "'n response"

datatype console_line =
    Log string
  | LogError string

text \<open>
  The state the program acts on: the system clock (\<open>clock w k\<close> is the \<open>k\<close>-th reading, in
  milliseconds), the number of readings taken, the lines written to the console, the
  requests handed to \<^verbatim>\<open>fetch\<close>, and the network that answers them.
\<close>

record 'n world =
  clock :: "nat \<Rightarrow> nat"
  reads :: nat
  console :: "console_line list"
  sent :: "request list"
  network :: "request \<Rightarrow> 'n fetch_outcome"

definition Date_now :: "'n world \<Rightarrow> nat \<times> 'n world" where
  "Date_now w = (clock w (reads w), w\<lparr>reads := Suc (reads w)\<rparr>)"

definition console_log :: "string \<Rightarrow> 'n world \<Rightarrow> 'n world" where
  "console_log s w = w\<lparr>console := console w @ [Log s]\<rparr>"

definition console_error :: "string \<Rightarrow> 'n world \<Rightarrow> 'n world" where
  "console_error s w = w\<lparr>console := console w @ [LogError s]\<rparr>"

text \<open>\<^verbatim>\<open>fetch(url, options)\<close>: the request is recorded and the network answers it.\<close>

definition fetch :: "request \<Rightarrow> 'n world \<Rightarrow> 'n fetch_outcome \<times> 'n world" where
  "fetch rq w = (network w rq, w\<lparr>sent := sent w @ [rq]\<rparr>)"

section \<open>apiRequest\<close>

text \<open>
  An asynchronous function is a function from the world to its outcome and the new world:
  \<open>Inl e\<close> when the promise rejects with \<open>e\<close>, \<open>Inr v\<close> when it resolves to \<open>v\<close>.
\<close>

text \<open>The headers object built by \<^verbatim>\<open>apiRequest\<close>.\<close>

definition api_headers :: "config \<Rightarrow> string \<Rightarrow> string \<Rightarrow> (string \<times> string) list" where
  "api_headers cfg nonce signature =
     [(''BIZ-API-KEY'', API_KEY cfg),
      (''BIZ-API-NONCE'', nonce),
      (''BIZ-API-SIGNATURE'', signature),
      (''Content-Type'', ''application/json''),
      (''Accept'', ''application/json'')]"

text \<open>
  The part of \<^verbatim>\<open>apiRequest\<close> after \<^verbatim>\<open>fetch\<close> has resolved. The message of the error for a
  status outside 200 to 299 is a template literal: reading \<^verbatim>\<open>result.message\<close> and converting
  the chosen value to a string may each throw.
\<close>

definition handle_response ::
  "('n, 's) platform \<Rightarrow> 'n response \<Rightarrow> 'n world \<Rightarrow> (js_error + 'n jsval) \<times> 'n world" where
  "handle_response P resp w0 =
     (let w1 = console_log (''Response Status: '' @ nat_to_dec (status resp) @ '' '' @ statusText resp) w0
      in case json_result resp of
           Inl parse_error \<Rightarrow>
             (case text_result resp of
                Inl e \<Rightarrow> (Inl e, w1)
              | Inr txt \<Rightarrow>
                  (Inl (Error (''API returned non-JSON response (status '' @ nat_to_dec (status resp) @ '')'')),
                   console_error (''Invalid JSON response: '' @ txt) w1))
         | Inr result \<Rightarrow>
             if \<not> ok resp then
               (let w2 = console_error (''API Error Response: '' @ JSON_stringify P result) w1
                in case get_prop result ''message'' of
                     Inl e \<Rightarrow> (Inl e, w2)
                   | Inr m \<Rightarrow>
                       (case to_string P (if truthy P m then m else JStr (statusText resp)) of
                          Inl e \<Rightarrow> (Inl e, w2)
                        | Inr detail \<Rightarrow>
                            (Inl (Error (''API request failed with status '' @ nat_to_dec (status resp) @
                                         '': '' @ detail)),
                             w2)))
             else (Inr result, console_log (''Response Body: '' @ JSON_stringify P result) w1))"

text \<open>The default value \<^verbatim>\<open>null\<close> replaces a body argument that is \<^verbatim>\<open>undefined\<close>.\<close>

definition apiRequest ::
  "('n, 's) platform \<Rightarrow> config \<Rightarrow> string \<Rightarrow> string \<Rightarrow> 'n jsval \<Rightarrow> 'n world \<Rightarrow> (js_error + 'n jsval) \<times> 'n world" where
  "apiRequest P cfg method path body_arg w0 =
     (let bodyObj = (if body_arg = JUndefined then JNull else body_arg);
          (now, w1) = Date_now w0;
          nonce = nat_to_dec now;
          signature = signRequest P cfg method path nonce (if truthy P bodyObj then bodyObj else JObj []);
          hdrs = api_headers cfg nonce signature;
          (today, w2) = Date_now w1;
          w3 = console_log (''['' @ toISOString P today @ ''] Request: '' @ toUpperCase P method @ '' '' @
                            BASE_URL cfg @ path) w2;
          w4 = (if truthy P bodyObj then console_log (''Request Body: '' @ JSON_stringify P bodyObj) w3 else w3);
          rq = \<lparr>url = BASE_URL cfg @ path,
                http_method = toUpperCase P method,
                headers = hdrs,
                body = (if truthy P bodyObj then Some (JSON_stringify P bodyObj) else None)\<rparr>;
          (outcome, w5) = fetch rq w4
      in case outcome of
           Rejects err \<Rightarrow> (Inl err, console_error (''Network error during API call: '' @ message err) w5)
         | Resolves resp \<Rightarrow> handle_response P resp w5)"

section \<open>The three convenience functions\<close>

text \<open>
  Each template literal converts its values to strings when it is evaluated, and a
  conversion that throws ends the function there: before the request when the value is an
  argument, after it when the value comes from the response.
\<close>

definition createWallet :: "('n, 's) platform \<Rightarrow> config \<Rightarrow> 'n jsval \<Rightarrow> 'n world \<Rightarrow> (js_error + 'n jsval) \<times> 'n world" where
  "createWallet P cfg name w0 =
     (let w1 = console_log ''--- Creating a new wallet ---'' w0
      in case to_string P name of
           Inl e \<Rightarrow> (Inl e, w1)
         | Inr name_text \<Rightarrow>
             (let w2 = console_log (''Wallet Name: '' @ name_text) w1;
                  body = JObj [(''name'', name), (''wallet_type'', JStr ''Custodial'')];
                  (r, w3) = apiRequest P cfg ''POST'' ''/v2/wallets'' body w2
              in case r of
                   Inl e \<Rightarrow> (Inl e, w3)
                 | Inr result \<Rightarrow>
                     (case get_prop result ''wallet_id'' of
                        Inl e \<Rightarrow> (Inl e, w3)
                      | Inr wallet_id \<Rightarrow>
                          (case to_string P wallet_id of
                             Inl e \<Rightarrow> (Inl e, w3)
                           | Inr id_text \<Rightarrow>
                               (Inr result,
                                console_log (''Wallet created successfully. ID: '' @ id_text) w3)))))"

definition getDepositAddress :: "('n, 's) platform \<Rightarrow> config \<Rightarrow> 'n jsval \<Rightarrow> 'n world \<Rightarrow> (js_error + 'n jsval) \<times> 'n world" where
  "getDepositAddress P cfg walletId w0 =
     (let w1 = console_log ''--- Retrieving ETH deposit address ---'' w0
      in case to_string P walletId of
           Inl e \<Rightarrow> (Inl e, w1)
         | Inr id_text \<Rightarrow>
             (let w2 = console_log (''Wallet ID: '' @ id_text) w1;
                  body = JObj [(''chain_id'', JStr ''ETH'')]
              in case to_string P walletId of
                   Inl e \<Rightarrow> (Inl e, w2)
                 | Inr id_in_path \<Rightarrow>
                     (let (r, w3) = apiRequest P cfg ''POST'' (''/v2/wallets/'' @ id_in_path @ ''/addresses'') body w2
                      in case r of
                           Inl e \<Rightarrow> (Inl e, w3)
                         | Inr result \<Rightarrow>
                             (let addressInfo =
                                    (case result of
                                       JArr xs \<Rightarrow> (case xs of [] \<Rightarrow> JUndefined | x # rest \<Rightarrow> x)
                                     | other \<Rightarrow> result)
                              in case get_prop addressInfo ''address'' of
                                   Inl e \<Rightarrow> (Inl e, w3)
                                 | Inr address \<Rightarrow>
                                     (let depositAddress = (if truthy P address then address else JStr [])
                                      in case to_string P depositAddress of
                                           Inl e \<Rightarrow> (Inl e, w3)
                                         | Inr address_text \<Rightarrow>
                                             (Inr depositAddress,
                                              console_log (''Ethereum deposit address: '' @ address_text) w3))))))"

definition withdrawETH ::
  "('n, 's) platform \<Rightarrow> config \<Rightarrow> 'n jsval \<Rightarrow> 'n jsval \<Rightarrow> 'n jsval \<Rightarrow> 'n world \<Rightarrow> (js_error + 'n jsval) \<times> 'n world" where
  "withdrawETH P cfg walletId toAddress amount w0 =
     (let w1 = console_log ''--- Withdrawing ETH to external address ---'' w0
      in case to_string P walletId of
           Inl e \<Rightarrow> (Inl e, w1)
         | Inr id_text \<Rightarrow>
             (let w2 = console_log (''Wallet ID: '' @ id_text) w1
              in case to_string P toAddress of
                   Inl e \<Rightarrow> (Inl e, w2)
                 | Inr address_text \<Rightarrow>
                     (let w3 = console_log (''Destination (external) address: '' @ address_text) w2
                      in case to_string P amount of
                           Inl e \<Rightarrow> (Inl e, w3)
                         | Inr amount_text \<Rightarrow>
                             (let w4 = console_log (''Amount: '' @ amount_text @ '' ETH'') w3;
                                  body = JObj [(''source_wallet_id'', walletId),
                                               (''token_id'', JStr ''ETH''),
                                               (''to_address'', toAddress),
                                               (''amount'', amount)];
                                  (r, w5) = apiRequest P cfg ''POST'' ''/v2/transactions/transfer'' body w4
                              in case r of
                                   Inl e \<Rightarrow> (Inl e, w5)
                                 | Inr result \<Rightarrow>
                                     (Inr result,
                                      console_log (''Withdrawal request submitted. Response: '' @
                                                   JSON_stringify P result) w5)))))"

section \<open>Notions used in the statements\<close>

text \<open>
  The request that \<^verbatim>\<open>apiRequest\<close> hands to \<^verbatim>\<open>fetch\<close>, as a function of the arguments
  (the body after its default has been applied) and of the clock reading used as nonce.
\<close>

definition built_request :: "('n, 's) platform \<Rightarrow> config \<Rightarrow> string \<Rightarrow> string \<Rightarrow> 'n jsval \<Rightarrow> nat \<Rightarrow> request" where
  "built_request P cfg method path bodyObj now =
     \<lparr>url = BASE_URL cfg @ path,
      http_method = toUpperCase P method,
      headers = api_headers cfg (nat_to_dec now)
                  (signRequest P cfg method path (nat_to_dec now) (if truthy P bodyObj then bodyObj else JObj [])),
      body = (if truthy P bodyObj then Some (JSON_stringify P bodyObj) else None)\<rparr>"

text \<open>
  The outcome of \<^verbatim>\<open>apiRequest\<close> once \<^verbatim>\<open>fetch\<close> has resolved: \<open>handle_response\<close> without
  the console.
\<close>

definition response_result :: "('n, 's) platform \<Rightarrow> 'n response \<Rightarrow> js_error + 'n jsval" where
  "response_result P resp =
     (case json_result resp of
        Inl parse_error \<Rightarrow>
          (case text_result resp of
             Inl e \<Rightarrow> Inl e
           | Inr txt \<Rightarrow> Inl (Error (''API returned non-JSON response (status '' @ nat_to_dec (status resp) @ '')'')))
      | Inr result \<Rightarrow>
          if \<not> ok resp then
            (case get_prop result ''message'' of
               Inl e \<Rightarrow> Inl e
             | Inr m \<Rightarrow>
                 (case to_string P (if truthy P m then m else JStr (statusText resp)) of
                    Inl e \<Rightarrow> Inl e
                  | Inr detail \<Rightarrow>
                      Inl (Error (''API request failed with status '' @ nat_to_dec (status resp) @
                                  '': '' @ detail))))
          else Inr result)"

text \<open>
  The one call of \<^verbatim>\<open>apiRequest\<close> in each convenience function, with the arguments the
  function gives it, in the world the function has reached when it makes the call. There
  is no call (\<open>None\<close>) when a template literal before it has thrown.
\<close>

definition createWallet_call ::
  "('n, 's) platform \<Rightarrow> config \<Rightarrow> 'n jsval \<Rightarrow> 'n world \<Rightarrow> ((js_error + 'n jsval) \<times> 'n world) option" where
  "createWallet_call P cfg name w =
     (case to_string P name of
        Inl e \<Rightarrow> None
      | Inr name_text \<Rightarrow>
          Some (apiRequest P cfg ''POST'' ''/v2/wallets''
                  (JObj [(''name'', name), (''wallet_type'', JStr ''Custodial'')])
                  (console_log (''Wallet Name: '' @ name_text)
                     (console_log ''--- Creating a new wallet ---'' w))))"

definition getDepositAddress_call ::
  "('n, 's) platform \<Rightarrow> config \<Rightarrow> 'n jsval \<Rightarrow> 'n world \<Rightarrow> ((js_error + 'n jsval) \<times> 'n world) option" where
  "getDepositAddress_call P cfg walletId w =
     (case to_string P walletId of
        Inl e \<Rightarrow> None
      | Inr id_text \<Rightarrow>
          Some (apiRequest P cfg ''POST'' (''/v2/wallets/'' @ id_text @ ''/addresses'')
                  (JObj [(''chain_id'', JStr ''ETH'')])
                  (console_log (''Wallet ID: '' @ id_text)
                     (console_log ''--- Retrieving ETH deposit address ---'' w))))"

definition withdrawETH_call ::
  "('n, 's) platform \<Rightarrow> config \<Rightarrow> 'n jsval \<Rightarrow> 'n jsval \<Rightarrow> 'n jsval \<Rightarrow> 'n world \<Rightarrow>
     ((js_error + 'n jsval) \<times> 'n world) option" where
  "withdrawETH_call P cfg walletId toAddress amount w =
     (case (to_string P walletId, to_string P toAddress, to_string P amount) of
        (Inr id_text, Inr address_text, Inr amount_text) \<Rightarrow>
          Some (apiRequest P cfg ''POST'' ''/v2/transactions/transfer''
                  (JObj [(''source_wallet_id'', walletId),
                         (''token_id'', JStr ''ETH''),
                         (''to_address'', toAddress),
                         (''amount'', amount)])
                  (console_log (''Amount: '' @ amount_text @ '' ETH'')
                     (console_log (''Destination (external) address: '' @ address_text)
                        (console_log (''Wallet ID: '' @ id_text)
                           (console_log ''--- Withdrawing ETH to external address ---'' w)))))
      | other \<Rightarrow> None)"

text \<open>
  The value \<^verbatim>\<open>getDepositAddress\<close> takes the address from: the first element of an array,
  the response itself when it is not an array. The first element of an empty array is
  \<^verbatim>\<open>undefined\<close>.
\<close>

definition selected_info :: "'n jsval \<Rightarrow> 'n jsval" where
  "selected_info result =
     (case result of
        JArr xs \<Rightarrow> (case xs of [] \<Rightarrow> JUndefined | x # rest \<Rightarrow> x)
      | other \<Rightarrow> result)"

text \<open>
  The \<^verbatim>\<open>address\<close> field of a value, when it is an object that has one.
\<close>

definition address_field :: "'n jsval \<Rightarrow> 'n jsval option" where
  "address_field v = (case v of JObj kvs \<Rightarrow> map_of kvs ''address'' | other \<Rightarrow> None)"

text \<open>
  The address to return for a selected value: its \<^verbatim>\<open>address\<close> field when that is truthy,
  the empty string when the field is missing or not truthy.
\<close>

definition address_or_empty :: "('n, 's) platform \<Rightarrow> 'n jsval \<Rightarrow> 'n jsval" where
  "address_or_empty P v =
     (case address_field v of
        Some a \<Rightarrow> if truthy P a then a else JStr []
      | None \<Rightarrow> JStr [])"

section \<open>A concrete platform and concrete worlds\<close>

text \<open>
  To run the model on concrete inputs the parameters need values. The ones below are
  symbolic: the digest of \<open>m\<close> is the text \<^verbatim>\<open>SHA256(m)\<close>, a signature is the pair of key and
  digest, and its hex form is the text \<^verbatim>\<open>DER(ECDSA(key,digest))\<close>, so that a computed
  signature shows what was hashed and signed. Numbers are integers printed in decimal,
  \<open>json_text\<close> prints a value without escaping the contents of strings, a time is printed
  as its number of milliseconds, and \<open>ascii_upper\<close> changes the letters \<^verbatim>\<open>a\<close> to \<^verbatim>\<open>z\<close> only;
  the inputs used below stay where these agree with the real functions.
\<close>

definition int_to_dec :: "int \<Rightarrow> string" where
  "int_to_dec i = (if i < 0 then ''-'' @ nat_to_dec (nat (- i)) else nat_to_dec (nat i))"

fun json_text :: "int jsval \<Rightarrow> string" where
  "json_text JUndefined = ''null''"
| "json_text JNull = ''null''"
| "json_text (JBool b) = (if b then ''true'' else ''false'')"
| "json_text (JNum n) = int_to_dec n"
| "json_text (JStr s) = [CHR 0x22] @ s @ [CHR 0x22]"
| "json_text (JArr xs) = ''['' @ array_join (map json_text xs) '','' @ '']''"
| "json_text (JObj kvs) =
     ''{'' @ array_join (map (\<lambda>(k, v). [CHR 0x22] @ k @ [CHR 0x22] @ '':'' @ json_text v)
                           (filter (\<lambda>(k, v). v \<noteq> JUndefined) kvs)) '','' @ ''}''"

definition ascii_upper :: "string \<Rightarrow> string" where
  "ascii_upper s =
     map (\<lambda>c. if CHR ''a'' \<le> c \<and> c \<le> CHR ''z'' then char_of (of_char c - (32::nat)) else c) s"

definition example_platform :: "(int, string \<times> string) platform" where
  "example_platform =
     \<lparr>sha256 = (\<lambda>m. ''SHA256('' @ m @ '')''),
      ec_sign = (\<lambda>secret h. (secret, h)),
      toDER_hex = (\<lambda>(secret, h). ''DER(ECDSA('' @ secret @ '','' @ h @ ''))''),
      JSON_stringify = json_text,
      Number_toString = int_to_dec,
      Number_truthy = (\<lambda>n. n \<noteq> 0),
      toISOString = nat_to_dec,
      toUpperCase = ascii_upper\<rparr>"

definition example_config :: config where
  "example_config = \<lparr>API_KEY = ''key'', API_SECRET = ''c0ffee'', BASE_URL = ''https://api.cobo.com''\<rparr>"

text \<open>A world at the start of a run whose network gives every request the same answer.\<close>

definition world_answering :: "int fetch_outcome \<Rightarrow> int world" where
  "world_answering answer =
     \<lparr>clock = (\<lambda>k. 1700000000000 + k), reads = 0, console = [], sent = [],
      network = (\<lambda>rq. answer)\<rparr>"

definition json_response :: "nat \<Rightarrow> string \<Rightarrow> int jsval \<Rightarrow> int response" where
  "json_response code reason v =
     \<lparr>status = code, statusText = reason, json_result = Inr v,
      text_result = Inl (TypeError ''Body is unusable: Body has already been read'')\<rparr>"

definition html_response :: "nat \<Rightarrow> string \<Rightarrow> int response" where
  "html_response code reason =
     \<lparr>status = code, statusText = reason,
      json_result = Inl (OtherError ''SyntaxError'' ''Unexpected token < in JSON at position 0''),
      text_result = Inl (TypeError ''Body is unusable: Body has already been read'')\<rparr>"

section \<open>Basic facts\<close>

subsection \<open>String conversion of primitives\<close>

lemma to_string_primitive: "\<not> typeof_object v \<Longrightarrow> to_string P v = Inr (param_value P v)"
  by (cases v) (simp_all add: param_value_def)

subsection \<open>The parameter string\<close>

lemma paramsStr_falsy: "\<not> truthy P v \<Longrightarrow> paramsStr P v = []"
  by (simp add: paramsStr_def)

lemma paramsStr_empty_object: "paramsStr P (JObj []) = []"
  by (simp add: paramsStr_def)

subsection \<open>Requests sent and outcome of apiRequest\<close>

lemma sent_console_log: "sent (console_log s w) = sent w"
  by (simp add: console_log_def)

lemma sent_console_error: "sent (console_error s w) = sent w"
  by (simp add: console_error_def)

lemma sent_handle_response: "sent (snd (handle_response P resp w)) = sent w"
  by (simp add: handle_response_def Let_def sent_console_log sent_console_error
           split: sum.splits)

lemma sent_apiRequest:
  "sent (snd (apiRequest P cfg method path b w)) =
     sent w @ [built_request P cfg method path (if b = JUndefined then JNull else b) (clock w (reads w))]"
  by (simp add: apiRequest_def Let_def Date_now_def fetch_def built_request_def
        sent_console_log sent_console_error sent_handle_response split: fetch_outcome.splits)

lemma network_console_log: "network (console_log s w) = network w"
  by (simp add: console_log_def)

lemma fst_handle_response: "fst (handle_response P resp w) = response_result P resp"
  by (simp add: handle_response_def response_result_def Let_def split: sum.splits)

lemma response_result_not_json:
  "json_result resp = Inl pe \<Longrightarrow> \<exists>e. response_result P resp = Inl e"
  by (simp add: response_result_def split: sum.splits)

lemma response_result_not_ok:
  "\<not> ok resp \<Longrightarrow> \<exists>e. response_result P resp = Inl e"
  by (simp add: response_result_def split: sum.splits)

lemma response_result_Inr:
  "response_result P resp = Inr v \<longleftrightarrow> json_result resp = Inr v \<and> ok resp"
  by (auto simp add: response_result_def split: sum.splits)

lemma fst_apiRequest:
  "fst (apiRequest P cfg method path b w) =
     (case network w (built_request P cfg method path (if b = JUndefined then JNull else b) (clock w (reads w))) of
        Rejects err \<Rightarrow> Inl err
      | Resolves resp \<Rightarrow> response_result P resp)"
  by (simp add: apiRequest_def Let_def Date_now_def fetch_def built_request_def
        network_console_log fst_handle_response split: fetch_outcome.splits)

lemma network_world_answering: "network (world_answering a) rq = a"
  by (simp add: world_answering_def)

lemma fst_apiRequest_answering:
  "fst (apiRequest P cfg method path b (console_log s (console_log t (world_answering a)))) =
     (case a of Rejects err \<Rightarrow> Inl err | Resolves resp \<Rightarrow> response_result P resp)"
  by (simp add: fst_apiRequest network_console_log network_world_answering)

lemma response_result_json_response:
  "200 \<le> code \<Longrightarrow> code \<le> 299 \<Longrightarrow> response_result P (json_response code reason v) = Inr v"
  by (simp add: response_result_def json_response_def ok_def)

lemma example_upper:
  "toUpperCase example_platform ''POST'' = ''POST''"
  "toUpperCase example_platform ''get'' = ''GET''"
  unfolding example_platform_def by (simp_all, code_simp+)

subsection \<open>Decimal digits\<close>

lemma digit_char_values:
  "digit_char 0 = CHR ''0''" "digit_char (Suc 0) = CHR ''1''" "digit_char 2 = CHR ''2''"
  "digit_char 3 = CHR ''3''" "digit_char 4 = CHR ''4''" "digit_char 5 = CHR ''5''"
  "digit_char 6 = CHR ''6''" "digit_char 7 = CHR ''7''" "digit_char 8 = CHR ''8''"
  "digit_char 9 = CHR ''9''"
  by code_simp+

lemma first_reading: "nat_to_dec (clock (world_answering a) (reads (world_answering a))) = ''1700000000000''"
proof -
  have "clock (world_answering a) (reads (world_answering a)) = 1700000000000"
    by (simp add: world_answering_def)
  moreover have "nat_to_dec 1700000000000 = ''1700000000000''"
    by (simp add: nat_to_dec.simps digit_char_values)
  ultimately show ?thesis
    by (simp only:)
qed

subsection \<open>Reading the address\<close>

lemma nat_to_dec_digits: "c \<in> set (nat_to_dec n) \<Longrightarrow> of_char c < (58::nat)"
proof (induction n rule: nat_to_dec.induct)
  case (1 n)
  show ?case
  proof (cases "n < 10")
    case True
    with "1.prems" show ?thesis
      by (simp add: nat_to_dec.simps [of n] digit_char_def)
  next
    case False
    with "1.prems" have "c \<in> set (nat_to_dec (n div 10)) \<or> c = digit_char (n mod 10)"
      by (auto simp add: nat_to_dec.simps [of n])
    then show ?thesis
    proof
      assume "c \<in> set (nat_to_dec (n div 10))"
      with False "1.IH" show ?thesis by simp
    next
      assume "c = digit_char (n mod 10)"
      moreover have "n mod 10 < 10" by simp
      ultimately show ?thesis
        by (simp add: digit_char_def)
    qed
  qed
qed

lemma nat_to_dec_not_address: "nat_to_dec i \<noteq> ''address''"
proof
  assume "nat_to_dec i = ''address''"
  then have "CHR ''a'' \<in> set (nat_to_dec i)" by simp
  then have "of_char (CHR ''a'') < (58::nat)" by (rule nat_to_dec_digits)
  then show False by simp
qed

lemma index_of_key_address: "index_of_key n ''address'' = None"
  by (simp add: index_of_key_def find_None_iff nat_to_dec_not_address)

lemma get_prop_address:
  "v \<noteq> JNull \<Longrightarrow> v \<noteq> JUndefined \<Longrightarrow>
   get_prop v ''address'' = Inr (case address_field v of Some a \<Rightarrow> a | None \<Rightarrow> JUndefined)"
  by (cases v) (simp_all add: address_field_def index_of_key_address)

section \<open>The signature\<close>

text \<open>
  Claim C1. For every method, path, nonce and params value, \<^verbatim>\<open>signRequest\<close> returns the
  hex-encoded DER form of the ECDSA signature, made with the API secret, of the SHA-256
  digest of the four parts \<^verbatim>\<open>METHOD\<close>, \<^verbatim>\<open>PATH\<close>, \<^verbatim>\<open>NONCE\<close>, \<^verbatim>\<open>PARAMS\<close> joined by \<^verbatim>\<open>|\<close>,
  where \<^verbatim>\<open>METHOD\<close> is \<^verbatim>\<open>method.toUpperCase()\<close> and \<^verbatim>\<open>PARAMS\<close> is the canonical parameter
  string.
\<close>

theorem signRequest_signs_message:
  "signRequest P cfg method path nonce params =
     toDER_hex P (ec_sign P (API_SECRET cfg)
       (sha256 P (array_join [toUpperCase P method, path, nonce, paramsStr P params] ''|'')))"
proof (cases "params = JUndefined")
  case True
  then show ?thesis
    by (simp add: signRequest_def paramsStr_falsy paramsStr_empty_object)
next
  case False
  then show ?thesis
    by (simp add: signRequest_def)
qed

text \<open>
  The signature of a \<^verbatim>\<open>get\<close> request with two parameters, on the symbolic platform.
\<close>

theorem signRequest_signs_message_witness:
  "signRequest example_platform example_config ''get'' ''/v2/wallets'' ''1700000000000''
     (JObj [(''offset'', JNum 0), (''limit'', JNum 10)]) =
   ''DER(ECDSA(c0ffee,SHA256(GET|/v2/wallets|1700000000000|limit=10&offset=0)))''"
proof -
  have p: "paramsStr example_platform (JObj [(''offset'', JNum 0), (''limit'', JNum 10)]) = ''limit=10&offset=0''"
    by code_simp
  have "signRequest example_platform example_config ''get'' ''/v2/wallets'' ''1700000000000''
          (JObj [(''offset'', JNum 0), (''limit'', JNum 10)]) =
        toDER_hex example_platform (ec_sign example_platform (API_SECRET example_config)
          (sha256 example_platform
             (array_join [''GET'', ''/v2/wallets'', ''1700000000000'', ''limit=10&offset=0''] ''|'')))"
    using signRequest_signs_message
            [of example_platform example_config "''get''" "''/v2/wallets''" "''1700000000000''"
                "JObj [(''offset'', JNum 0), (''limit'', JNum 10)]"]
    by (simp only: example_upper p)
  then show ?thesis
    by (simp add: example_platform_def example_config_def)
qed

text \<open>
  Claim C2. The parameter string is empty for an empty object and for an absent one
  (\<^verbatim>\<open>undefined\<close>, \<^verbatim>\<open>null\<close>). For an object with at least one key it is a list of pairs
  \<^verbatim>\<open>key=value\<close> joined by \<^verbatim>\<open>&\<close>: the keys of the pairs are the keys of the object, each
  once, in sorted order; the value of a pair is the JSON text of the property when the
  property is an object, and its string conversion otherwise.
\<close>

theorem paramsStr_canonical:
  "paramsStr P (JObj []) = [] \<and> paramsStr P JUndefined = [] \<and> paramsStr P JNull = [] \<and>
   (kvs \<noteq> [] \<longrightarrow>
     (\<exists>pairs. paramsStr P (JObj kvs) = array_join (map (\<lambda>(k, v). k @ ''='' @ v) pairs) ''&'' \<and>
        sorted (map fst pairs) \<and> mset (map fst pairs) = mset (map fst kvs) \<and>
        (\<forall>(k, v) \<in> set pairs. \<exists>x. map_of kvs k = Some x \<and>
            (typeof_object x \<longrightarrow> v = JSON_stringify P x) \<and>
            (\<not> typeof_object x \<longrightarrow> to_string P x = Inr v))))"
proof (intro conjI impI)
  show "paramsStr P (JObj []) = []" by (simp add: paramsStr_def)
  show "paramsStr P JUndefined = []" by (simp add: paramsStr_def)
  show "paramsStr P JNull = []" by (simp add: paramsStr_def)
next
  assume ne: "kvs \<noteq> []"
  define pairs where
    "pairs = map (\<lambda>key. (key, param_value P (prop_of (JObj kvs) key))) (sort (map fst kvs))"
  have fsts: "map fst pairs = sort (map fst kvs)"
    by (simp add: pairs_def comp_def)
  have str: "paramsStr P (JObj kvs) = array_join (map (\<lambda>(k, v). k @ ''='' @ v) pairs) ''&''"
    using ne by (simp add: paramsStr_def Let_def pairs_def comp_def)
  have vals: "\<forall>(k, v) \<in> set pairs. \<exists>x. map_of kvs k = Some x \<and>
            (typeof_object x \<longrightarrow> v = JSON_stringify P x) \<and>
            (\<not> typeof_object x \<longrightarrow> to_string P x = Inr v)"
  proof (clarify)
    fix k v assume "(k, v) \<in> set pairs"
    then have k: "k \<in> fst ` set kvs" and v: "v = param_value P (prop_of (JObj kvs) k)"
      by (auto simp: pairs_def)
    from k obtain x where x: "map_of kvs k = Some x"
      by (metis map_of_eq_None_iff not_Some_eq)
    then have "prop_of (JObj kvs) k = x"
      by (simp add: prop_of_def)
    with v have v': "v = param_value P x"
      by simp
    have "typeof_object x \<longrightarrow> v = JSON_stringify P x"
      by (simp add: v' param_value_def)
    moreover have "\<not> typeof_object x \<longrightarrow> to_string P x = Inr v"
      by (simp add: v' to_string_primitive)
    ultimately show "\<exists>x. map_of kvs k = Some x \<and>
            (typeof_object x \<longrightarrow> v = JSON_stringify P x) \<and>
            (\<not> typeof_object x \<longrightarrow> to_string P x = Inr v)"
      using x by simp
  qed
  show "\<exists>pairs. paramsStr P (JObj kvs) = array_join (map (\<lambda>(k, v). k @ ''='' @ v) pairs) ''&'' \<and>
        sorted (map fst pairs) \<and> mset (map fst pairs) = mset (map fst kvs) \<and>
        (\<forall>(k, v) \<in> set pairs. \<exists>x. map_of kvs k = Some x \<and>
            (typeof_object x \<longrightarrow> v = JSON_stringify P x) \<and>
            (\<not> typeof_object x \<longrightarrow> to_string P x = Inr v))"
    using str vals by (intro exI [of _ pairs]) (simp add: fsts)
qed

text \<open>
  The object \<^verbatim>\<open>{offset: 0, limit: 10}\<close> gives \<^verbatim>\<open>limit=10&offset=0\<close>.
\<close>

theorem paramsStr_canonical_witness:
  "paramsStr example_platform (JObj [(''offset'', JNum 0), (''limit'', JNum 10)]) = ''limit=10&offset=0'' \<and>
   (\<exists>pairs. paramsStr example_platform (JObj [(''offset'', JNum 0), (''limit'', JNum 10)]) =
              array_join (map (\<lambda>(k, v). k @ ''='' @ v) pairs) ''&'' \<and>
            sorted (map fst pairs) \<and>
            mset (map fst pairs) = mset [''offset'', ''limit''])"
proof -
  have v: "paramsStr example_platform (JObj [(''offset'', JNum 0), (''limit'', JNum 10)]) = ''limit=10&offset=0''"
    by code_simp
  have ne: "[(''offset'', JNum 0), (''limit'', JNum (10::int))] \<noteq> []"
    by simp
  from paramsStr_canonical [of example_platform "[(''offset'', JNum 0), (''limit'', JNum 10)]"] ne
  obtain pairs where
    "paramsStr example_platform (JObj [(''offset'', JNum 0), (''limit'', JNum 10)]) =
       array_join (map (\<lambda>(k, v). k @ ''='' @ v) pairs) ''&''"
    "sorted (map fst pairs)"
    "mset (map fst pairs) = mset (map fst [(''offset'', JNum 0), (''limit'', JNum (10::int))])"
    by blast
  then show ?thesis
    using v by auto
qed

section \<open>The request wrapper\<close>

text \<open>
  Claim C3. A call of \<^verbatim>\<open>apiRequest\<close> hands exactly one request to \<^verbatim>\<open>fetch\<close>: nothing is
  retried. When \<^verbatim>\<open>fetch\<close> rejects, the call throws the same error; when the body of the
  response is not valid JSON, the call throws; when the status is outside 200 to 299, the
  call throws. The call returns a value exactly when \<^verbatim>\<open>fetch\<close> resolved, the body parsed
  and the status is in 200 to 299, and the value is then the parsed body.
\<close>

theorem apiRequest_failures:
  "let out = apiRequest P cfg method path bodyObj w;
       rq = last (sent (snd out))
   in sent (snd out) = sent w @ [rq] \<and>
      (\<forall>err. network w rq = Rejects err \<longrightarrow> fst out = Inl err) \<and>
      (\<forall>resp. network w rq = Resolves resp \<longrightarrow>
         ((\<exists>pe. json_result resp = Inl pe) \<longrightarrow> (\<exists>e. fst out = Inl e)) \<and>
         (\<not> (200 \<le> status resp \<and> status resp \<le> 299) \<longrightarrow> (\<exists>e. fst out = Inl e))) \<and>
      (\<forall>v. fst out = Inr v \<longleftrightarrow>
         (\<exists>resp. network w rq = Resolves resp \<and> json_result resp = Inr v \<and>
                 200 \<le> status resp \<and> status resp \<le> 299))"
proof -
  define rq where "rq = built_request P cfg method path (if bodyObj = JUndefined then JNull else bodyObj) (clock w (reads w))"
  define out where "out = apiRequest P cfg method path bodyObj w"
  have sent: "sent (snd out) = sent w @ [rq]"
    by (simp add: out_def rq_def sent_apiRequest)
  then have last: "last (sent (snd out)) = rq"
    by simp
  have res: "fst out = (case network w rq of Rejects err \<Rightarrow> Inl err
                        | Resolves resp \<Rightarrow> response_result P resp)"
    by (simp add: out_def rq_def fst_apiRequest)
  have rej: "\<forall>err. network w rq = Rejects err \<longrightarrow> fst out = Inl err"
    by (simp add: res)
  have bad: "\<forall>resp. network w rq = Resolves resp \<longrightarrow>
         ((\<exists>pe. json_result resp = Inl pe) \<longrightarrow> (\<exists>e. fst out = Inl e)) \<and>
         (\<not> (200 \<le> status resp \<and> status resp \<le> 299) \<longrightarrow> (\<exists>e. fst out = Inl e))"
  proof (intro allI impI conjI)
    fix resp assume r: "network w rq = Resolves resp"
    { assume "\<exists>pe. json_result resp = Inl pe"
      then show "\<exists>e. fst out = Inl e"
        using response_result_not_json [of resp _ P] by (auto simp: res r) }
    { assume "\<not> (200 \<le> status resp \<and> status resp \<le> 299)"
      then have "\<not> ok resp" by (simp add: ok_def)
      then show "\<exists>e. fst out = Inl e"
        using response_result_not_ok [of resp P] by (simp add: res r) }
  qed
  have good: "\<forall>v. fst out = Inr v \<longleftrightarrow>
         (\<exists>resp. network w rq = Resolves resp \<and> json_result resp = Inr v \<and>
                 200 \<le> status resp \<and> status resp \<le> 299)"
  proof
    fix v
    show "fst out = Inr v \<longleftrightarrow>
         (\<exists>resp. network w rq = Resolves resp \<and> json_result resp = Inr v \<and>
                 200 \<le> status resp \<and> status resp \<le> 299)"
      by (cases "network w rq") (auto simp: res response_result_Inr ok_def)
  qed
  show ?thesis
    unfolding Let_def out_def [symmetric] last
    using sent rej bad good by blast
qed

text \<open>
  A network failure, an HTML error page, a JSON error with status 404, and a success.
\<close>

theorem apiRequest_failures_witness:
  "fst (apiRequest example_platform example_config ''POST'' ''/v2/wallets'' JNull
          (world_answering (Rejects (TypeError ''fetch failed'')))) = Inl (TypeError ''fetch failed'') \<and>
   (\<exists>e. fst (apiRequest example_platform example_config ''POST'' ''/v2/wallets'' JNull
               (world_answering (Resolves (html_response 502 ''Bad Gateway'')))) = Inl e) \<and>
   (\<exists>e. fst (apiRequest example_platform example_config ''POST'' ''/v2/wallets'' JNull
               (world_answering (Resolves (json_response 404 ''Not Found'' (JObj [(''message'', JStr ''nope'')]))))) = Inl e) \<and>
   fst (apiRequest example_platform example_config ''POST'' ''/v2/wallets'' JNull
          (world_answering (Resolves (json_response 200 ''OK'' (JObj [(''wallet_id'', JStr ''w1'')]))))) =
     Inr (JObj [(''wallet_id'', JStr ''w1'')])"
proof -
  note t = apiRequest_failures [of example_platform example_config "''POST''" "''/v2/wallets''" JNull, unfolded Let_def]
  have 1: "fst (apiRequest example_platform example_config ''POST'' ''/v2/wallets'' JNull
          (world_answering (Rejects (TypeError ''fetch failed'')))) = Inl (TypeError ''fetch failed'')"
    using t [of "world_answering (Rejects (TypeError ''fetch failed''))"]
    by (simp add: network_world_answering)
  have 2: "\<exists>e. fst (apiRequest example_platform example_config ''POST'' ''/v2/wallets'' JNull
               (world_answering (Resolves (html_response 502 ''Bad Gateway'')))) = Inl e"
    using t [of "world_answering (Resolves (html_response 502 ''Bad Gateway''))"]
    by (simp add: network_world_answering html_response_def)
  have 3: "\<exists>e. fst (apiRequest example_platform example_config ''POST'' ''/v2/wallets'' JNull
               (world_answering (Resolves (json_response 404 ''Not Found'' (JObj [(''message'', JStr ''nope'')]))))) = Inl e"
    using t [of "world_answering (Resolves (json_response 404 ''Not Found'' (JObj [(''message'', JStr ''nope'')])))"]
    by (simp add: network_world_answering json_response_def)
  have 4: "fst (apiRequest example_platform example_config ''POST'' ''/v2/wallets'' JNull
          (world_answering (Resolves (json_response 200 ''OK'' (JObj [(''wallet_id'', JStr ''w1'')]))))) =
     Inr (JObj [(''wallet_id'', JStr ''w1'')])"
    using t [of "world_answering (Resolves (json_response 200 ''OK'' (JObj [(''wallet_id'', JStr ''w1'')])))"]
    by (simp add: network_world_answering json_response_def)
  from 1 2 3 4 show ?thesis by simp
qed

text \<open>
  Claim C5. The request of an \<^verbatim>\<open>apiRequest\<close> call carries exactly five headers:
  \<^verbatim>\<open>BIZ-API-KEY\<close> with the configured key, \<^verbatim>\<open>BIZ-API-NONCE\<close> with the reading of the clock
  in decimal, \<^verbatim>\<open>BIZ-API-SIGNATURE\<close> with the signature, \<^verbatim>\<open>Content-Type\<close> and \<^verbatim>\<open>Accept\<close>.
  The nonce in the signed message is the nonce in the header.
\<close>

theorem apiRequest_headers:
  "let nonce = nat_to_dec (clock w (reads w));
       rq = last (sent (snd (apiRequest P cfg method path bodyObj w)))
   in sent (snd (apiRequest P cfg method path bodyObj w)) = sent w @ [rq] \<and>
      headers rq =
        [(''BIZ-API-KEY'', API_KEY cfg),
         (''BIZ-API-NONCE'', nonce),
         (''BIZ-API-SIGNATURE'',
            toDER_hex P (ec_sign P (API_SECRET cfg)
              (sha256 P (toUpperCase P method @ ''|'' @ path @ ''|'' @ nonce @ ''|'' @ paramsStr P bodyObj)))),
         (''Content-Type'', ''application/json''),
         (''Accept'', ''application/json'')]"
proof -
  have "paramsStr P (if bodyObj = JUndefined then JObj [] else bodyObj) = paramsStr P bodyObj"
    by (simp add: paramsStr_falsy paramsStr_empty_object)
  then show ?thesis
    by (simp add: Let_def sent_apiRequest built_request_def api_headers_def signRequest_def
          paramsStr_falsy paramsStr_empty_object)
qed

text \<open>
  The headers of the request that creates a wallet named \<^verbatim>\<open>demo\<close>, on the symbolic platform
  at the clock reading 1700000000000.
\<close>

theorem apiRequest_headers_witness:
  "headers (last (sent (snd (apiRequest example_platform example_config ''POST'' ''/v2/wallets''
      (JObj [(''name'', JStr ''demo''), (''wallet_type'', JStr ''Custodial'')])
      (world_answering (Rejects (TypeError ''fetch failed''))))))) =
     [(''BIZ-API-KEY'', ''key''),
      (''BIZ-API-NONCE'', ''1700000000000''),
      (''BIZ-API-SIGNATURE'',
         ''DER(ECDSA(c0ffee,SHA256(POST|/v2/wallets|1700000000000|name=demo&wallet_type=Custodial)))''),
      (''Content-Type'', ''application/json''),
      (''Accept'', ''application/json'')]"
proof -
  let ?b = "JObj [(''name'', JStr ''demo''), (''wallet_type'', JStr ''Custodial'')]"
  let ?w = "world_answering (Rejects (TypeError ''fetch failed''))"
  have p: "paramsStr example_platform ?b = ''name=demo&wallet_type=Custodial''"
    by code_simp
  have "headers (last (sent (snd (apiRequest example_platform example_config ''POST'' ''/v2/wallets'' ?b ?w)))) =
     [(''BIZ-API-KEY'', API_KEY example_config),
      (''BIZ-API-NONCE'', ''1700000000000''),
      (''BIZ-API-SIGNATURE'',
         toDER_hex example_platform (ec_sign example_platform (API_SECRET example_config)
           (sha256 example_platform
              (''POST'' @ ''|'' @ ''/v2/wallets'' @ ''|'' @ ''1700000000000'' @ ''|'' @
               ''name=demo&wallet_type=Custodial'')))),
      (''Content-Type'', ''application/json''),
      (''Accept'', ''application/json'')]"
    using apiRequest_headers [of ?w example_platform example_config "''POST''" "''/v2/wallets''" ?b]
    by (simp only: Let_def first_reading p example_upper)
  then show ?thesis
    by (simp add: example_platform_def example_config_def)
qed

text \<open>
  Claim C8. \<^verbatim>\<open>signRequest\<close> gives the same signature for the parameters \<^verbatim>\<open>null\<close>,
  \<^verbatim>\<open>undefined\<close> and \<^verbatim>\<open>{}\<close>. An \<^verbatim>\<open>apiRequest\<close> call with the body \<^verbatim>\<open>null\<close> therefore
  signs the same message, with an empty parameter string, as a call with the body \<^verbatim>\<open>{}\<close>
  at the same clock reading, and the two requests have the same headers; but the first
  request has no body and the second has the body \<^verbatim>\<open>JSON.stringify({})\<close>.
\<close>

theorem null_body_signed_as_empty_object:
  "signRequest P cfg method path nonce JNull = signRequest P cfg method path nonce (JObj []) \<and>
   signRequest P cfg method path nonce JUndefined = signRequest P cfg method path nonce (JObj []) \<and>
   (let rq_null = last (sent (snd (apiRequest P cfg method path JNull w)));
        rq_empty = last (sent (snd (apiRequest P cfg method path (JObj []) w)));
        nonce' = nat_to_dec (clock w (reads w));
        signature = toDER_hex P (ec_sign P (API_SECRET cfg)
                      (sha256 P (toUpperCase P method @ ''|'' @ path @ ''|'' @ nonce' @ ''|'')))
    in map_of (headers rq_null) ''BIZ-API-SIGNATURE'' = Some signature \<and>
       map_of (headers rq_empty) ''BIZ-API-SIGNATURE'' = Some signature \<and>
       headers rq_null = headers rq_empty \<and>
       body rq_null = None \<and>
       body rq_empty = Some (JSON_stringify P (JObj [])))"
  by (simp add: Let_def sent_apiRequest built_request_def api_headers_def signRequest_def
        paramsStr_falsy paramsStr_empty_object)

section \<open>Loading the module\<close>

text \<open>
  Claim C9. When \<^verbatim>\<open>COBO_API_KEY\<close> or \<^verbatim>\<open>COBO_API_SECRET\<close> is not set, loading the module
  throws. The exported functions exist only after a successful load, with the constants it
  produced; a successful load means that both variables were set, to the non-empty values
  the functions then use.
\<close>

theorem load_module_requires_credentials:
  "(env ''COBO_API_KEY'' = None \<or> env ''COBO_API_SECRET'' = None \<longrightarrow>
      load_module env =
        Inl (Error ''Missing API key or secret. Please set COBO_API_KEY and COBO_API_SECRET in .env'')) \<and>
   (\<forall>cfg. load_module env = Inr cfg \<longrightarrow>
      env ''COBO_API_KEY'' = Some (API_KEY cfg) \<and> env ''COBO_API_SECRET'' = Some (API_SECRET cfg) \<and>
      API_KEY cfg \<noteq> [] \<and> API_SECRET cfg \<noteq> [])"
  by (auto simp add: load_module_def Let_def env_falsy_def split: option.splits if_splits)

text \<open>
  An environment without the secret, and one with both variables.
\<close>

theorem load_module_requires_credentials_witness:
  "load_module [''COBO_API_KEY'' \<mapsto> ''key''] =
     Inl (Error ''Missing API key or secret. Please set COBO_API_KEY and COBO_API_SECRET in .env'') \<and>
   load_module [''COBO_API_KEY'' \<mapsto> ''key'', ''COBO_API_SECRET'' \<mapsto> ''c0ffee''] = Inr example_config \<and>
   [''COBO_API_KEY'' \<mapsto> ''key'', ''COBO_API_SECRET'' \<mapsto> ''c0ffee''] ''COBO_API_SECRET'' =
     Some (API_SECRET example_config)"
proof -
  have 1: "load_module [''COBO_API_KEY'' \<mapsto> ''key''] =
     Inl (Error ''Missing API key or secret. Please set COBO_API_KEY and COBO_API_SECRET in .env'')"
    using load_module_requires_credentials [of "[''COBO_API_KEY'' \<mapsto> ''key'']"] by simp
  have 2: "load_module [''COBO_API_KEY'' \<mapsto> ''key'', ''COBO_API_SECRET'' \<mapsto> ''c0ffee''] = Inr example_config"
    by (simp add: load_module_def env_falsy_def env_or_def example_config_def)
  from load_module_requires_credentials
         [of "[''COBO_API_KEY'' \<mapsto> ''key'', ''COBO_API_SECRET'' \<mapsto> ''c0ffee'']"] 2
  have 3: "[''COBO_API_KEY'' \<mapsto> ''key'', ''COBO_API_SECRET'' \<mapsto> ''c0ffee''] ''COBO_API_SECRET'' =
     Some (API_SECRET example_config)"
    by blast
  from 1 2 3 show ?thesis by simp
qed

section \<open>Results and errors of the convenience functions\<close>

text \<open>
  Claim C6, amended. For every name that has a string conversion (every string, among
  others), \<^verbatim>\<open>createWallet\<close> makes one \<^verbatim>\<open>apiRequest\<close> call, with the method \<^verbatim>\<open>POST\<close>, the path
  \<^verbatim>\<open>/v2/wallets\<close> and the body \<^verbatim>\<open>{name: name, wallet_type: 'Custodial'}\<close>, and sends the one
  request of that call and no other. When the call returns a result whose \<^verbatim>\<open>wallet_id\<close>
  can be read (the result is not \<^verbatim>\<open>null\<close> or \<^verbatim>\<open>undefined\<close>) and has a string conversion,
  \<^verbatim>\<open>createWallet\<close> returns that result unchanged.
\<close>

theorem createWallet_single_call:
  assumes "to_string P name = Inr name_text"
  shows "let call = apiRequest P cfg ''POST'' ''/v2/wallets''
                      (JObj [(''name'', name), (''wallet_type'', JStr ''Custodial'')])
                      (console_log (''Wallet Name: '' @ name_text)
                         (console_log ''--- Creating a new wallet ---'' w))
         in createWallet_call P cfg name w = Some call \<and>
            sent (snd (createWallet P cfg name w)) = sent (snd call) \<and>
            (\<exists>rq. sent (snd (createWallet P cfg name w)) = sent w @ [rq] \<and>
                  http_method rq = toUpperCase P ''POST'' \<and>
                  url rq = BASE_URL cfg @ ''/v2/wallets'' \<and>
                  body rq = Some (JSON_stringify P
                                    (JObj [(''name'', name), (''wallet_type'', JStr ''Custodial'')]))) \<and>
            (\<forall>result wallet_id id_text.
               fst call = Inr result \<and> get_prop result ''wallet_id'' = Inr wallet_id \<and>
               to_string P wallet_id = Inr id_text \<longrightarrow>
               fst (createWallet P cfg name w) = Inr result)"
proof -
  define call where
    "call = apiRequest P cfg ''POST'' ''/v2/wallets''
              (JObj [(''name'', name), (''wallet_type'', JStr ''Custodial'')])
              (console_log (''Wallet Name: '' @ name_text)
                 (console_log ''--- Creating a new wallet ---'' w))"
  have c: "createWallet_call P cfg name w = Some call"
    using assms by (simp add: createWallet_call_def call_def)
  have same: "sent (snd (createWallet P cfg name w)) = sent (snd call)"
    using assms
    by (simp add: createWallet_def call_def Let_def sent_console_log split: prod.splits sum.splits)
  have rq: "\<exists>rq. sent (snd (createWallet P cfg name w)) = sent w @ [rq] \<and>
                  http_method rq = toUpperCase P ''POST'' \<and>
                  url rq = BASE_URL cfg @ ''/v2/wallets'' \<and>
                  body rq = Some (JSON_stringify P
                                    (JObj [(''name'', name), (''wallet_type'', JStr ''Custodial'')]))"
    by (simp add: same call_def sent_apiRequest sent_console_log built_request_def)
  have ret: "fst (createWallet P cfg name w) = Inr result"
    if r: "fst call = Inr result" and g: "get_prop result ''wallet_id'' = Inr wallet_id"
      and t: "to_string P wallet_id = Inr id_text" for result wallet_id id_text
  proof -
    obtain w' where "call = (Inr result, w')"
      using r by (cases call) auto
    then show ?thesis
      using assms g t by (simp add: createWallet_def call_def Let_def)
  qed
  show ?thesis
    unfolding Let_def call_def [symmetric]
    using c same rq ret by blast
qed

text \<open>
  A response with a wallet object is returned as it is.
\<close>

theorem createWallet_single_call_witness:
  "fst (createWallet example_platform example_config (JStr ''demo'')
          (world_answering (Resolves (json_response 200 ''OK'' (JObj [(''wallet_id'', JStr ''w1'')]))))) =
     Inr (JObj [(''wallet_id'', JStr ''w1'')])"
proof -
  let ?w = "world_answering (Resolves (json_response 200 ''OK'' (JObj [(''wallet_id'', JStr ''w1'')])))"
  have n: "to_string example_platform (JStr ''demo'') = Inr ''demo''"
    by simp
  have "fst (apiRequest example_platform example_config ''POST'' ''/v2/wallets''
               (JObj [(''name'', JStr ''demo''), (''wallet_type'', JStr ''Custodial'')])
               (console_log (''Wallet Name: '' @ ''demo'') (console_log ''--- Creating a new wallet ---'' ?w))) =
          Inr (JObj [(''wallet_id'', JStr ''w1'')])"
    by (simp add: fst_apiRequest_answering response_result_json_response)
  then show ?thesis
    using createWallet_single_call [OF n, of example_config ?w]
    by (simp add: Let_def)
qed

text \<open>
  Without the restrictions the statement fails, in three ways. When the API answers with
  status 200 and the JSON body \<^verbatim>\<open>null\<close>, \<^verbatim>\<open>apiRequest\<close> returns \<^verbatim>\<open>null\<close> and \<^verbatim>\<open>createWallet\<close>
  throws a \<^verbatim>\<open>TypeError\<close> while it reads \<^verbatim>\<open>result.wallet_id\<close> for its log line. When the body
  is \<^verbatim>\<open>{"wallet_id": {"toString": 1}}\<close>, the call returns that object and \<^verbatim>\<open>createWallet\<close>
  throws a \<^verbatim>\<open>TypeError\<close> while it converts the wallet id to a string. When the name is the
  object \<^verbatim>\<open>{toString: 1}\<close>, \<^verbatim>\<open>createWallet\<close> throws before the call and sends no request.
\<close>

theorem createWallet_result_counterexample:
  "map_option fst (createWallet_call example_platform example_config (JStr ''demo'')
          (world_answering (Resolves (json_response 200 ''OK'' JNull)))) = Some (Inr JNull) \<and>
   fst (createWallet example_platform example_config (JStr ''demo'')
          (world_answering (Resolves (json_response 200 ''OK'' JNull)))) =
     Inl (TypeError (''Cannot read properties of null (reading '' @ [CHR 0x27] @ ''wallet_id'' @ [CHR 0x27] @ '')'')) \<and>
   map_option fst (createWallet_call example_platform example_config (JStr ''demo'')
          (world_answering (Resolves (json_response 200 ''OK''
             (JObj [(''wallet_id'', JObj [(''toString'', JNum 1)])]))))) =
     Some (Inr (JObj [(''wallet_id'', JObj [(''toString'', JNum 1)])])) \<and>
   fst (createWallet example_platform example_config (JStr ''demo'')
          (world_answering (Resolves (json_response 200 ''OK''
             (JObj [(''wallet_id'', JObj [(''toString'', JNum 1)])]))))) =
     Inl (TypeError ''Cannot convert object to primitive value'') \<and>
   fst (createWallet example_platform example_config (JObj [(''toString'', JNum 1)])
          (world_answering (Resolves (json_response 200 ''OK'' (JObj [(''wallet_id'', JStr ''w1'')]))))) =
     Inl (TypeError ''Cannot convert object to primitive value'') \<and>
   sent (snd (createWallet example_platform example_config (JObj [(''toString'', JNum 1)])
          (world_answering (Resolves (json_response 200 ''OK'' (JObj [(''wallet_id'', JStr ''w1'')])))))) = []"
proof -
  let ?null = "world_answering (Resolves (json_response 200 ''OK'' JNull))"
  let ?r = "JObj [(''wallet_id'', JObj [(''toString'', JNum (1::int))])]"
  let ?obj = "world_answering (Resolves (json_response 200 ''OK'' ?r))"
  let ?good = "world_answering (Resolves (json_response 200 ''OK'' (JObj [(''wallet_id'', JStr ''w1'')])))"
  have c1: "map_option fst (createWallet_call example_platform example_config (JStr ''demo'') ?null) = Some (Inr JNull)"
    by (simp add: createWallet_call_def fst_apiRequest_answering response_result_json_response)
  then obtain w1 where "createWallet_call example_platform example_config (JStr ''demo'') ?null = Some (Inr JNull, w1)"
    by (cases "createWallet_call example_platform example_config (JStr ''demo'') ?null") auto
  then have r1: "fst (createWallet example_platform example_config (JStr ''demo'') ?null) =
     Inl (TypeError (''Cannot read properties of null (reading '' @ [CHR 0x27] @ ''wallet_id'' @ [CHR 0x27] @ '')''))"
    by (simp add: createWallet_def createWallet_call_def Let_def)
  have c2: "map_option fst (createWallet_call example_platform example_config (JStr ''demo'') ?obj) = Some (Inr ?r)"
    by (simp add: createWallet_call_def fst_apiRequest_answering response_result_json_response)
  then obtain w2 where "createWallet_call example_platform example_config (JStr ''demo'') ?obj = Some (Inr ?r, w2)"
    by (cases "createWallet_call example_platform example_config (JStr ''demo'') ?obj") auto
  then have r2: "fst (createWallet example_platform example_config (JStr ''demo'') ?obj) =
     Inl (TypeError ''Cannot convert object to primitive value'')"
    by (simp add: createWallet_def createWallet_call_def Let_def)
  have r3: "fst (createWallet example_platform example_config (JObj [(''toString'', JNum 1)]) ?good) =
     Inl (TypeError ''Cannot convert object to primitive value'')"
    by (simp add: createWallet_def Let_def)
  have r4: "sent (snd (createWallet example_platform example_config (JObj [(''toString'', JNum 1)]) ?good)) = []"
    by (simp add: createWallet_def Let_def sent_console_log world_answering_def)
  from c1 r1 c2 r2 r3 r4 show ?thesis by simp
qed

text \<open>
  Claim C7. When the \<^verbatim>\<open>apiRequest\<close> call of \<^verbatim>\<open>createWallet\<close>, \<^verbatim>\<open>getDepositAddress\<close> or
  \<^verbatim>\<open>withdrawETH\<close> throws, the function throws the same error, and it leaves the world as
  the call left it: it sends no further request and writes nothing more.
\<close>

theorem wrappers_propagate_errors:
  "(createWallet_call P cfg name w = Some (Inl e, w') \<longrightarrow> createWallet P cfg name w = (Inl e, w')) \<and>
   (getDepositAddress_call P cfg walletId w = Some (Inl e, w') \<longrightarrow>
      getDepositAddress P cfg walletId w = (Inl e, w')) \<and>
   (withdrawETH_call P cfg walletId toAddress amount w = Some (Inl e, w') \<longrightarrow>
      withdrawETH P cfg walletId toAddress amount w = (Inl e, w'))"
  by (simp add: createWallet_def createWallet_call_def getDepositAddress_def
        getDepositAddress_call_def withdrawETH_def withdrawETH_call_def Let_def
      split: sum.splits)

text \<open>
  All three functions pass on the error of a network failure.
\<close>

theorem wrappers_propagate_errors_witness:
  "fst (createWallet example_platform example_config (JStr ''demo'')
          (world_answering (Rejects (TypeError ''fetch failed'')))) = Inl (TypeError ''fetch failed'') \<and>
   fst (getDepositAddress example_platform example_config (JStr ''w1'')
          (world_answering (Rejects (TypeError ''fetch failed'')))) = Inl (TypeError ''fetch failed'') \<and>
   fst (withdrawETH example_platform example_config (JStr ''w1'') (JStr ''0xabc'') (JStr ''0.01'')
          (world_answering (Rejects (TypeError ''fetch failed'')))) = Inl (TypeError ''fetch failed'')"
proof -
  let ?w = "world_answering (Rejects (TypeError ''fetch failed''))"
  let ?e = "TypeError ''fetch failed''"
  have "map_option fst (createWallet_call example_platform example_config (JStr ''demo'') ?w) = Some (Inl ?e)"
    by (simp add: createWallet_call_def fst_apiRequest_answering)
  then obtain w1 where c: "createWallet_call example_platform example_config (JStr ''demo'') ?w = Some (Inl ?e, w1)"
    by (cases "createWallet_call example_platform example_config (JStr ''demo'') ?w") auto
  have "map_option fst (getDepositAddress_call example_platform example_config (JStr ''w1'') ?w) = Some (Inl ?e)"
    by (simp add: getDepositAddress_call_def fst_apiRequest_answering)
  then obtain w2 where g: "getDepositAddress_call example_platform example_config (JStr ''w1'') ?w = Some (Inl ?e, w2)"
    by (cases "getDepositAddress_call example_platform example_config (JStr ''w1'') ?w") auto
  have "map_option fst (withdrawETH_call example_platform example_config (JStr ''w1'') (JStr ''0xabc'') (JStr ''0.01'') ?w) = Some (Inl ?e)"
    by (simp add: withdrawETH_call_def fst_apiRequest network_console_log network_world_answering)
  then obtain w3 where d: "withdrawETH_call example_platform example_config (JStr ''w1'') (JStr ''0xabc'') (JStr ''0.01'') ?w = Some (Inl ?e, w3)"
    by (cases "withdrawETH_call example_platform example_config (JStr ''w1'') (JStr ''0xabc'') (JStr ''0.01'') ?w") auto
  have 1: "fst (createWallet example_platform example_config (JStr ''demo'') ?w) = Inl ?e"
    using wrappers_propagate_errors [THEN conjunct1, THEN mp, OF c] by simp
  have 2: "fst (getDepositAddress example_platform example_config (JStr ''w1'') ?w) = Inl ?e"
    using wrappers_propagate_errors [THEN conjunct2, THEN conjunct1, THEN mp, OF g] by simp
  have 3: "fst (withdrawETH example_platform example_config (JStr ''w1'') (JStr ''0xabc'') (JStr ''0.01'') ?w) = Inl ?e"
    using wrappers_propagate_errors [THEN conjunct2, THEN conjunct2, THEN mp, OF d] by simp
  from 1 2 3 show ?thesis by simp
qed

text \<open>
  Claim C10, amended. Let the \<^verbatim>\<open>apiRequest\<close> call of \<^verbatim>\<open>getDepositAddress\<close> return a
  response, let the selected value (the first element when the response is an array, the
  response itself otherwise) be neither \<^verbatim>\<open>null\<close> nor \<^verbatim>\<open>undefined\<close>, and let the address to
  return have a string conversion. Then \<^verbatim>\<open>getDepositAddress\<close> returns the \<^verbatim>\<open>address\<close> field
  of the selected value when that field is truthy, and the empty string when the field is
  missing or not truthy.
\<close>

theorem getDepositAddress_result:
  assumes "getDepositAddress_call P cfg walletId w = Some call"
    and "fst call = Inr result"
    and "selected_info result \<noteq> JNull" and "selected_info result \<noteq> JUndefined"
    and "to_string P (address_or_empty P (selected_info result)) = Inr address_text"
  shows "fst (getDepositAddress P cfg walletId w) = Inr (address_or_empty P (selected_info result))"
proof -
  obtain id_text where i: "to_string P walletId = Inr id_text"
    using assms(1) by (auto simp: getDepositAddress_call_def split: sum.splits)
  obtain w' where call: "call = (Inr result, w')"
    using assms(2) by (cases call) auto
  have c: "apiRequest P cfg ''POST'' (''/v2/wallets/'' @ id_text @ ''/addresses'')
             (JObj [(''chain_id'', JStr ''ETH'')])
             (console_log (''Wallet ID: '' @ id_text)
                (console_log ''--- Retrieving ETH deposit address ---'' w)) = (Inr result, w')"
    using assms(1) i call by (simp add: getDepositAddress_call_def)
  have sel: "(case result of JArr xs \<Rightarrow> (case xs of [] \<Rightarrow> JUndefined | x # rest \<Rightarrow> x) | other \<Rightarrow> result)
               = selected_info result"
    by (simp add: selected_info_def)
  have g: "get_prop (selected_info result) ''address'' =
          Inr (case address_field (selected_info result) of Some a \<Rightarrow> a | None \<Rightarrow> JUndefined)"
    using assms(3,4) by (rule get_prop_address)
  have a: "(if truthy P (case address_field (selected_info result) of Some a \<Rightarrow> a | None \<Rightarrow> JUndefined)
            then (case address_field (selected_info result) of Some a \<Rightarrow> a | None \<Rightarrow> JUndefined)
            else JStr []) = address_or_empty P (selected_info result)"
    by (simp add: address_or_empty_def split: option.splits)
  show ?thesis
    using c assms(5)
    by (simp add: getDepositAddress_def Let_def i sel g a)
qed

text \<open>
  An array of two address objects gives the first address; an object without an address
  gives the empty string.
\<close>

theorem getDepositAddress_result_witness:
  "fst (getDepositAddress example_platform example_config (JStr ''w1'')
          (world_answering (Resolves (json_response 200 ''OK''
             (JArr [JObj [(''address'', JStr ''0xabc'')], JObj [(''address'', JStr ''0xdef'')]]))))) =
     Inr (JStr ''0xabc'') \<and>
   fst (getDepositAddress example_platform example_config (JStr ''w1'')
          (world_answering (Resolves (json_response 200 ''OK'' (JObj [(''chain_id'', JStr ''ETH'')]))))) =
     Inr (JStr [])"
proof -
  let ?a = "JArr [JObj [(''address'', JStr ''0xabc'')], JObj [(''address'', JStr ''0xdef'')]]"
  let ?b = "JObj [(''chain_id'', JStr ''ETH'')]"
  let ?wa = "world_answering (Resolves (json_response 200 ''OK'' ?a))"
  let ?wb = "world_answering (Resolves (json_response 200 ''OK'' ?b))"
  have "map_option fst (getDepositAddress_call example_platform example_config (JStr ''w1'') ?wa) = Some (Inr ?a)"
    by (simp add: getDepositAddress_call_def fst_apiRequest_answering response_result_json_response)
  then obtain ca where ca: "getDepositAddress_call example_platform example_config (JStr ''w1'') ?wa = Some ca"
    and fa: "fst ca = Inr ?a"
    by (cases "getDepositAddress_call example_platform example_config (JStr ''w1'') ?wa") auto
  have "map_option fst (getDepositAddress_call example_platform example_config (JStr ''w1'') ?wb) = Some (Inr ?b)"
    by (simp add: getDepositAddress_call_def fst_apiRequest_answering response_result_json_response)
  then obtain cb where cb: "getDepositAddress_call example_platform example_config (JStr ''w1'') ?wb = Some cb"
    and fb: "fst cb = Inr ?b"
    by (cases "getDepositAddress_call example_platform example_config (JStr ''w1'') ?wb") auto
  have sa: "address_or_empty example_platform (selected_info ?a) = JStr ''0xabc''"
    by (simp add: selected_info_def address_field_def address_or_empty_def)
  have sb: "address_or_empty example_platform (selected_info ?b) = JStr []"
    by (simp add: selected_info_def address_field_def address_or_empty_def)
  have 1: "fst (getDepositAddress example_platform example_config (JStr ''w1'') ?wa) = Inr (JStr ''0xabc'')"
    using getDepositAddress_result [OF ca fa, of "''0xabc''"]
    by (simp add: sa) (simp add: selected_info_def)
  have 2: "fst (getDepositAddress example_platform example_config (JStr ''w1'') ?wb) = Inr (JStr [])"
    using getDepositAddress_result [OF cb fb, of "[]"]
    by (simp add: sb) (simp add: selected_info_def)
  from 1 2 show ?thesis by simp
qed

text \<open>
  Without the restrictions the statement fails, in two ways. When the API answers with
  status 200 and the JSON body \<^verbatim>\<open>null\<close>, the response is not an array and has no address,
  and \<^verbatim>\<open>getDepositAddress\<close> throws a \<^verbatim>\<open>TypeError\<close> instead of returning the empty string.
  When the body is \<^verbatim>\<open>[{"address": {"toString": 1}}]\<close>, the first element has a truthy
  address, and \<^verbatim>\<open>getDepositAddress\<close> throws a \<^verbatim>\<open>TypeError\<close> while it converts the address
  to a string for its log line.
\<close>

theorem getDepositAddress_result_counterexample:
  "map_option fst (getDepositAddress_call example_platform example_config (JStr ''w1'')
          (world_answering (Resolves (json_response 200 ''OK'' JNull)))) = Some (Inr JNull) \<and>
   fst (getDepositAddress example_platform example_config (JStr ''w1'')
          (world_answering (Resolves (json_response 200 ''OK'' JNull)))) =
     Inl (TypeError (''Cannot read properties of null (reading '' @ [CHR 0x27] @ ''address'' @ [CHR 0x27] @ '')'')) \<and>
   map_option fst (getDepositAddress_call example_platform example_config (JStr ''w1'')
          (world_answering (Resolves (json_response 200 ''OK''
             (JArr [JObj [(''address'', JObj [(''toString'', JNum 1)])]]))))) =
     Some (Inr (JArr [JObj [(''address'', JObj [(''toString'', JNum 1)])]])) \<and>
   fst (getDepositAddress example_platform example_config (JStr ''w1'')
          (world_answering (Resolves (json_response 200 ''OK''
             (JArr [JObj [(''address'', JObj [(''toString'', JNum 1)])]]))))) =
     Inl (TypeError ''Cannot convert object to primitive value'')"
proof -
  let ?null = "world_answering (Resolves (json_response 200 ''OK'' JNull))"
  let ?r = "JArr [JObj [(''address'', JObj [(''toString'', JNum (1::int))])]]"
  let ?obj = "world_answering (Resolves (json_response 200 ''OK'' ?r))"
  have c1: "map_option fst (getDepositAddress_call example_platform example_config (JStr ''w1'') ?null) = Some (Inr JNull)"
    by (simp add: getDepositAddress_call_def fst_apiRequest_answering response_result_json_response)
  then obtain w1 where "getDepositAddress_call example_platform example_config (JStr ''w1'') ?null = Some (Inr JNull, w1)"
    by (cases "getDepositAddress_call example_platform example_config (JStr ''w1'') ?null") auto
  then have r1: "fst (getDepositAddress example_platform example_config (JStr ''w1'') ?null) =
     Inl (TypeError (''Cannot read properties of null (reading '' @ [CHR 0x27] @ ''address'' @ [CHR 0x27] @ '')''))"
    by (simp add: getDepositAddress_def getDepositAddress_call_def Let_def)
  have c2: "map_option fst (getDepositAddress_call example_platform example_config (JStr ''w1'') ?obj) = Some (Inr ?r)"
    by (simp add: getDepositAddress_call_def fst_apiRequest_answering response_result_json_response)
  then obtain w2 where "getDepositAddress_call example_platform example_config (JStr ''w1'') ?obj = Some (Inr ?r, w2)"
    by (cases "getDepositAddress_call example_platform example_config (JStr ''w1'') ?obj") auto
  then have r2: "fst (getDepositAddress example_platform example_config (JStr ''w1'') ?obj) =
     Inl (TypeError ''Cannot convert object to primitive value'')"
    by (simp add: getDepositAddress_def getDepositAddress_call_def Let_def)
  from c1 r1 c2 r2 show ?thesis by simp
qed

end
